theory Spec2Isabelle
  imports Complex_Main
begin

section \<open>Errors and sequencing\<close>

text \<open>
  Every exception that the network code or the tensor library can raise is a value.
  \<open>RuntimeError\<close> is what the tensor library raises when a shape does not fit; the
  \<open>fault\<close> tells which check failed (expected size first, actual size second).
\<close>

datatype fault =
    Rank
  | Channels nat nat
  | Features nat nat
  | KernelSize
  | OutputSize
  | Broadcast
  | CatSizes

datatype error =
    ValueError
  | RuntimeError fault
  | EinopsError
  | ZeroDivisionError
  | IndexError
  | TypeError
  | AttributeError

text \<open>Running a statement after another one: the first exception ends the call.\<close>

fun bnd :: "error + 'a \<Rightarrow> ('a \<Rightarrow> error + 'b) \<Rightarrow> error + 'b" where
  "bnd (Inl e) f = Inl e"
| "bnd (Inr v) f = f v"

text \<open>A fixed sequence of stages applied one after the other.\<close>

primrec pipeline :: "('a \<Rightarrow> error + 'a) list \<Rightarrow> 'a \<Rightarrow> error + 'a" where
  "pipeline [] x = Inr x"
| "pipeline (f # fs) x = bnd (f x) (pipeline fs)"

section \<open>Layers of the tensor library: their configuration\<close>

text \<open>
  The layers \<open>nn.Conv2d\<close>, \<open>nn.ConvTranspose2d\<close>, \<open>nn.GroupNorm\<close>,
  \<open>nn.LayerNorm\<close>, \<open>nn.Linear\<close> and \<open>nn.Dropout\<close> are records of the arguments
  the source passes to them. Sizes and counts are natural numbers; a padding is an
  integer because \<open>get_pad\<close> computes it.
\<close>

record Conv2d =
  conv_in_channels :: nat
  conv_out_channels :: nat
  conv_kernel_size :: "nat \<times> nat"
  conv_stride :: "nat \<times> nat"
  conv_padding :: "int \<times> int"
  conv_dilation :: "nat \<times> nat"

record ConvTranspose2d =
  convT_in_channels :: nat
  convT_out_channels :: nat
  convT_kernel_size :: "nat \<times> nat"
  convT_stride :: "nat \<times> nat"
  convT_padding :: "int \<times> int"

record GroupNorm =
  gn_num_groups :: nat
  gn_num_channels :: nat
  gn_eps :: real
  gn_affine :: bool

record LayerNorm =
  ln_normalized_shape :: nat

record Linear =
  lin_in_features :: nat
  lin_out_features :: nat

record Dropout =
  drop_p :: real

text \<open>
  The attention module \<open>Stripformer\<close> is imported from
  \<open>models.Stripformer_Attention\<close>; the source only calls its constructor, with
  \<open>input_channels\<close> and sometimes \<open>flag\<close>.
\<close>

record Stripformer =
  sf_input_channels :: nat
  sf_flag :: "nat option"

text \<open>
  \<open>nn.GroupNorm\<close> is the one layer constructor of the source that rejects a
  configuration: the channel count has to be a multiple of the group count.
\<close>

definition GroupNorm_init :: "nat \<Rightarrow> nat \<Rightarrow> real \<Rightarrow> bool \<Rightarrow> error + GroupNorm" where
  "GroupNorm_init num_groups num_channels eps affine =
     (if num_channels mod num_groups \<noteq> 0 then Inl ValueError
      else Inr \<lparr>gn_num_groups = num_groups, gn_num_channels = num_channels,
                gn_eps = eps, gn_affine = affine\<rparr>)"

definition Normalize :: "nat \<Rightarrow> error + GroupNorm" where
  "Normalize in_channels = GroupNorm_init 32 in_channels (1 / 10 ^ 6) True"

section \<open>The tensor library as a parameter\<close>

text \<open>
  The network is written against the operations of an external tensor library. The
  model takes them as a record of functions over an arbitrary type of tensors, so that
  every function of the source is translated once and can be read with any meaning of
  the operations: with shapes only (below), or with any other deterministic meaning.
  An operation that can raise returns \<open>error + 'a\<close>. \<open>math_log\<close> is
  \<open>math.log\<close> of Python's own library.
\<close>

record 'a torch =
  conv2d :: "Conv2d \<Rightarrow> 'a \<Rightarrow> error + 'a"
  conv_transpose2d :: "ConvTranspose2d \<Rightarrow> 'a \<Rightarrow> error + 'a"
  group_norm :: "GroupNorm \<Rightarrow> 'a \<Rightarrow> error + 'a"
  layer_norm :: "LayerNorm \<Rightarrow> 'a \<Rightarrow> error + 'a"
  linear :: "Linear \<Rightarrow> 'a \<Rightarrow> error + 'a"
  relu :: "'a \<Rightarrow> 'a"
  dropout :: "Dropout \<Rightarrow> 'a \<Rightarrow> 'a"
  torch_sigmoid :: "'a \<Rightarrow> 'a"
  torch_exp :: "'a \<Rightarrow> 'a"
  torch_sin :: "'a \<Rightarrow> 'a"
  torch_cos :: "'a \<Rightarrow> 'a"
  torch_arange :: "nat \<Rightarrow> 'a"
  torch_tensor0 :: "'a"
  torch_cat :: "'a \<Rightarrow> 'a \<Rightarrow> nat \<Rightarrow> error + 'a"
  mul :: "'a \<Rightarrow> 'a \<Rightarrow> error + 'a"
  mul_scalar :: "'a \<Rightarrow> real \<Rightarrow> 'a"
  add :: "'a \<Rightarrow> 'a \<Rightarrow> error + 'a"
  iadd :: "'a \<Rightarrow> 'a \<Rightarrow> error + 'a"
  shape :: "'a \<Rightarrow> nat list"
  rearrange_bchw_to_bhwc :: "'a \<Rightarrow> error + 'a"
  rearrange_bhwc_to_bchw :: "nat \<Rightarrow> nat \<Rightarrow> 'a \<Rightarrow> error + 'a"
  index_col :: "'a \<Rightarrow> error + 'a"
  index_row :: "'a \<Rightarrow> error + 'a"
  index_hw :: "'a \<Rightarrow> error + 'a"
  stripformer :: "Stripformer \<Rightarrow> 'a \<Rightarrow> error + 'a"
  math_log :: "real \<Rightarrow> real"

section \<open>The blocks of the network\<close>

subsection \<open>MLP mixer\<close>

text \<open>\<open>nn.Sequential\<close> holds its layers in order and applies them in order.\<close>

datatype layer = LayerNormL LayerNorm | LinearL Linear | ReLUL

fun layer_forward :: "'a torch \<Rightarrow> layer \<Rightarrow> 'a \<Rightarrow> error + 'a" where
  "layer_forward T (LayerNormL l) x = layer_norm T l x"
| "layer_forward T (LinearL l) x = linear T l x"
| "layer_forward T ReLUL x = Inr (relu T x)"

primrec Sequential_forward :: "'a torch \<Rightarrow> layer list \<Rightarrow> 'a \<Rightarrow> error + 'a" where
  "Sequential_forward T [] x = Inr x"
| "Sequential_forward T (l # ls) x = bnd (layer_forward T l x) (Sequential_forward T ls)"

record MLP =
  mlp_conv :: Conv2d
  mlp_fc :: "layer list"

definition MLP_init :: "nat \<Rightarrow> nat \<Rightarrow> MLP" where
  "MLP_init embedding_size forward_expansion =
     \<lparr>mlp_conv = \<lparr>conv_in_channels = embedding_size, conv_out_channels = embedding_size,
                  conv_kernel_size = (3, 3), conv_stride = (1, 1), conv_padding = (1, 1),
                  conv_dilation = (1, 1)\<rparr>,
      mlp_fc = [LayerNormL \<lparr>ln_normalized_shape = embedding_size\<rparr>,
                LinearL \<lparr>lin_in_features = embedding_size,
                         lin_out_features = forward_expansion * embedding_size\<rparr>,
                ReLUL,
                LinearL \<lparr>lin_in_features = forward_expansion * embedding_size,
                         lin_out_features = embedding_size\<rparr>,
                LayerNormL \<lparr>ln_normalized_shape = embedding_size\<rparr>]\<rparr>"

text \<open>
  \<open>B, C, H, W = x.shape\<close> raises ValueError unless \<open>x\<close> has four dimensions. Moving
  the layers to the device of \<open>x\<close> changes no value and is left out.
\<close>

definition MLP_forward :: "'a torch \<Rightarrow> MLP \<Rightarrow> 'a \<Rightarrow> error + 'a" where
  "MLP_forward T m x =
     (case shape T x of
        [B, C, H, W] \<Rightarrow>
          bnd (conv2d T (mlp_conv m) x) (\<lambda>hx.
          bnd (rearrange_bchw_to_bhwc T hx) (\<lambda>hx.
          bnd (Sequential_forward T (mlp_fc m) hx) (\<lambda>hx.
          bnd (rearrange_bhwc_to_bchw T H W hx) (\<lambda>hx.
          bnd (conv2d T (mlp_conv m) hx) (\<lambda>hx.
          add T hx x)))))
      | _ \<Rightarrow> Inl ValueError)"

subsection \<open>Swish and the time embedding\<close>

definition Swish_forward :: "'a torch \<Rightarrow> 'a \<Rightarrow> error + 'a" where
  "Swish_forward T x = mul T x (torch_sigmoid T x)"

record TimeEmbedding =
  te_n_channels :: nat
  te_lin1 :: Linear
  te_lin2 :: Linear

definition TimeEmbedding_init :: "nat \<Rightarrow> error + TimeEmbedding" where
  "TimeEmbedding_init n_channels =
     Inr \<lparr>te_n_channels = n_channels,
          te_lin1 = \<lparr>lin_in_features = n_channels div 4, lin_out_features = n_channels\<rparr>,
          te_lin2 = \<lparr>lin_in_features = n_channels, lin_out_features = n_channels\<rparr>\<rparr>"

text \<open>
  \<open>math.log(10_000) / (half_dim - 1)\<close> is a division of Python numbers: it raises
  ZeroDivisionError when \<open>half_dim\<close> is 1. \<open>t[:, None]\<close> is \<open>index_col\<close>,
  \<open>emb[None, :]\<close> is \<open>index_row\<close>.
\<close>

definition TimeEmbedding_forward :: "'a torch \<Rightarrow> TimeEmbedding \<Rightarrow> 'a \<Rightarrow> error + 'a" where
  "TimeEmbedding_forward T te t =
     (let half_dim = te_n_channels te div 8 in
      if half_dim = 1 then Inl ZeroDivisionError
      else
        (let emb = math_log T 10000 / real_of_int (int half_dim - 1);
             emb = torch_exp T (mul_scalar T (torch_arange T half_dim) (- emb)) in
         bnd (index_col T t) (\<lambda>tc.
         bnd (index_row T emb) (\<lambda>er.
         bnd (mul T tc er) (\<lambda>emb.
         bnd (torch_cat T (torch_sin T emb) (torch_cos T emb) 1) (\<lambda>emb.
         bnd (linear T (te_lin1 te) emb) (\<lambda>l.
         bnd (Swish_forward T l) (\<lambda>emb.
         linear T (te_lin2 te) emb))))))))"

subsection \<open>Residual block\<close>

text \<open>
  \<open>shortcut\<close> is \<open>None\<close> for \<open>nn.Identity\<close>. The attribute \<open>time_emb\<close> exists
  only in a block built with \<open>is_noise\<close>. The conditioning argument \<open>t\<close> is a tensor
  or Python's \<open>None\<close>.
\<close>

record ResidualBlock =
  rb_is_noise :: bool
  rb_norm1 :: GroupNorm
  rb_conv1 :: Conv2d
  rb_norm2 :: GroupNorm
  rb_conv2 :: Conv2d
  rb_shortcut :: "Conv2d option"
  rb_time_emb :: "Linear option"
  rb_dropout :: Dropout

definition ResidualBlock_init ::
  "nat \<Rightarrow> nat \<Rightarrow> nat \<Rightarrow> real \<Rightarrow> bool \<Rightarrow> error + ResidualBlock" where
  "ResidualBlock_init in_channels out_channels time_channels dropout_p is_noise =
     bnd (Normalize in_channels) (\<lambda>norm1.
     bnd (Normalize out_channels) (\<lambda>norm2.
     Inr \<lparr>rb_is_noise = is_noise,
          rb_norm1 = norm1,
          rb_conv1 = \<lparr>conv_in_channels = in_channels, conv_out_channels = out_channels,
                      conv_kernel_size = (3, 3), conv_stride = (1, 1), conv_padding = (1, 1),
                      conv_dilation = (1, 1)\<rparr>,
          rb_norm2 = norm2,
          rb_conv2 = \<lparr>conv_in_channels = out_channels, conv_out_channels = out_channels,
                      conv_kernel_size = (3, 3), conv_stride = (1, 1), conv_padding = (1, 1),
                      conv_dilation = (1, 1)\<rparr>,
          rb_shortcut =
            (if in_channels \<noteq> out_channels
             then Some \<lparr>conv_in_channels = in_channels, conv_out_channels = out_channels,
                        conv_kernel_size = (1, 1), conv_stride = (1, 1), conv_padding = (0, 0),
                        conv_dilation = (1, 1)\<rparr>
             else None),
          rb_time_emb =
            (if is_noise
             then Some \<lparr>lin_in_features = time_channels, lin_out_features = out_channels\<rparr>
             else None),
          rb_dropout = \<lparr>drop_p = dropout_p\<rparr>\<rparr>))"

text \<open>
  The time embedding is added only under \<open>if self.is_noise\<close>; there
  \<open>self.time_act(t)\<close> on \<open>None\<close> raises TypeError.
\<close>

definition add_time_emb :: "'a torch \<Rightarrow> ResidualBlock \<Rightarrow> 'a \<Rightarrow> 'a option \<Rightarrow> error + 'a" where
  "add_time_emb T r h t =
     (if rb_is_noise r then
        (case rb_time_emb r of
           None \<Rightarrow> Inl AttributeError
         | Some time_emb \<Rightarrow>
            (case t of
               None \<Rightarrow> Inl TypeError
             | Some tv \<Rightarrow>
                 bnd (Swish_forward T tv) (\<lambda>a.
                 bnd (linear T time_emb a) (\<lambda>e.
                 bnd (index_hw T e) (\<lambda>e.
                 iadd T h e)))))
      else Inr h)"

definition shortcut_forward :: "'a torch \<Rightarrow> Conv2d option \<Rightarrow> 'a \<Rightarrow> error + 'a" where
  "shortcut_forward T s x = (case s of None \<Rightarrow> Inr x | Some c \<Rightarrow> conv2d T c x)"

definition ResidualBlock_forward ::
  "'a torch \<Rightarrow> ResidualBlock \<Rightarrow> 'a \<Rightarrow> 'a option \<Rightarrow> error + 'a" where
  "ResidualBlock_forward T r x t =
     bnd (group_norm T (rb_norm1 r) x) (\<lambda>h.
     bnd (Swish_forward T h) (\<lambda>a.
     bnd (conv2d T (rb_conv1 r) a) (\<lambda>h.
     bnd (add_time_emb T r h t) (\<lambda>h.
     bnd (group_norm T (rb_norm2 r) h) (\<lambda>h.
     bnd (Swish_forward T h) (\<lambda>a.
     bnd (conv2d T (rb_conv2 r) (dropout T (rb_dropout r) a)) (\<lambda>h.
     bnd (shortcut_forward T (rb_shortcut r) x) (\<lambda>s.
     add T h s))))))))"

subsection \<open>Down block and up block\<close>

record DownBlock =
  db_res :: ResidualBlock
  db_att :: Stripformer
  db_mlp :: MLP
  db_flag :: nat

definition DownBlock_init :: "nat \<Rightarrow> nat \<Rightarrow> nat \<Rightarrow> nat \<Rightarrow> bool \<Rightarrow> error + DownBlock" where
  "DownBlock_init in_channels out_channels time_channels flag is_noise =
     bnd (ResidualBlock_init in_channels out_channels time_channels (1 / 10) is_noise) (\<lambda>res.
     Inr \<lparr>db_res = res,
          db_att = \<lparr>sf_input_channels = out_channels, sf_flag = Some 0\<rparr>,
          db_mlp = MLP_init out_channels 2,
          db_flag = flag\<rparr>)"

definition DownBlock_forward :: "'a torch \<Rightarrow> DownBlock \<Rightarrow> 'a \<Rightarrow> 'a option \<Rightarrow> error + 'a" where
  "DownBlock_forward T b x t =
     bnd (ResidualBlock_forward T (db_res b) x t) (\<lambda>x.
     bnd (MLP_forward T (db_mlp b) x) (\<lambda>x.
     if db_flag b \<ge> 2 then stripformer T (db_att b) x else Inr x))"

text \<open>
  The residual block of an up block is built for \<open>in_channels + out_channels\<close> input
  channels. \<open>flag1\<close> is tested for truth: any number but 0.
\<close>

record UpBlock =
  ub_res :: ResidualBlock
  ub_att :: Stripformer
  ub_mlp :: MLP
  ub_flag1 :: nat
  ub_flag2 :: nat

definition UpBlock_init ::
  "nat \<Rightarrow> nat \<Rightarrow> nat \<Rightarrow> nat \<Rightarrow> bool \<Rightarrow> nat \<Rightarrow> error + UpBlock" where
  "UpBlock_init in_channels out_channels time_channels flag2 is_noise flag1 =
     bnd (ResidualBlock_init (in_channels + out_channels) out_channels time_channels (1 / 10)
            is_noise) (\<lambda>res.
     Inr \<lparr>ub_res = res,
          ub_att = \<lparr>sf_input_channels = out_channels, sf_flag = Some 0\<rparr>,
          ub_mlp = MLP_init out_channels 2,
          ub_flag1 = flag1,
          ub_flag2 = flag2\<rparr>)"

definition UpBlock_forward :: "'a torch \<Rightarrow> UpBlock \<Rightarrow> 'a \<Rightarrow> 'a option \<Rightarrow> error + 'a" where
  "UpBlock_forward T b x t =
     bnd (ResidualBlock_forward T (ub_res b) x t) (\<lambda>x.
     bnd (if ub_flag1 b \<noteq> 0 then MLP_forward T (ub_mlp b) x else Inr x) (\<lambda>x.
     if ub_flag1 b \<noteq> 0 \<and> ub_flag2 b \<ge> 2 then stripformer T (ub_att b) x else Inr x))"

subsection \<open>Padding of the dilated convolutions\<close>

text \<open>
  \<open>int(...)\<close> of a Python float drops the fraction (rounds towards zero);
  \<open>float(in_) / stride\<close> raises ZeroDivisionError for stride 0. The floats that occur
  are small integers and halves, which floating point represents exactly, so the
  arithmetic is written over the reals.
\<close>

definition py_int :: "real \<Rightarrow> int" where
  "py_int r = (if r \<ge> 0 then \<lfloor>r\<rfloor> else \<lceil>r\<rceil>)"

definition get_pad :: "int \<Rightarrow> int \<Rightarrow> int \<Rightarrow> int \<Rightarrow> error + int" where
  "get_pad inp ksize stride atrous =
     (if stride = 0 then Inl ZeroDivisionError
      else
        (let out = real_of_int \<lceil>real_of_int inp / real_of_int stride\<rceil> in
         Inr (py_int (((out - 1) * real_of_int stride + real_of_int (atrous * (ksize - 1)) + 1
                        - real_of_int inp) / 2))))"

subsection \<open>Middle block\<close>

record MiddleBlock =
  mb_res1 :: ResidualBlock
  mb_dia1 :: Conv2d
  mb_dia2 :: Conv2d
  mb_sf :: Stripformer
  mb_dia3 :: Conv2d
  mb_dia4 :: Conv2d
  mb_res2 :: ResidualBlock

definition dilated_conv :: "nat \<Rightarrow> nat \<Rightarrow> int \<Rightarrow> Conv2d" where
  "dilated_conv n_channels d pad =
     \<lparr>conv_in_channels = n_channels, conv_out_channels = n_channels,
      conv_kernel_size = (3, 3), conv_stride = (1, 1), conv_padding = (pad, pad),
      conv_dilation = (d, d)\<rparr>"

definition MiddleBlock_init :: "nat \<Rightarrow> nat \<Rightarrow> bool \<Rightarrow> error + MiddleBlock" where
  "MiddleBlock_init n_channels time_channels is_noise =
     bnd (ResidualBlock_init n_channels n_channels time_channels (1 / 10) is_noise) (\<lambda>res1.
     bnd (get_pad 16 3 1 2) (\<lambda>pad1.
     bnd (get_pad 16 3 1 4) (\<lambda>pad2.
     bnd (get_pad 16 3 1 8) (\<lambda>pad3.
     bnd (get_pad 16 3 1 16) (\<lambda>pad4.
     bnd (ResidualBlock_init n_channels n_channels time_channels (1 / 10) is_noise) (\<lambda>res2.
     Inr \<lparr>mb_res1 = res1,
          mb_dia1 = dilated_conv n_channels 2 pad1,
          mb_dia2 = dilated_conv n_channels 4 pad2,
          mb_sf = \<lparr>sf_input_channels = n_channels, sf_flag = None\<rparr>,
          mb_dia3 = dilated_conv n_channels 8 pad3,
          mb_dia4 = dilated_conv n_channels 16 pad4,
          mb_res2 = res2\<rparr>))))))"

definition MiddleBlock_forward ::
  "'a torch \<Rightarrow> MiddleBlock \<Rightarrow> 'a \<Rightarrow> 'a option \<Rightarrow> error + 'a" where
  "MiddleBlock_forward T b x t =
     bnd (ResidualBlock_forward T (mb_res1 b) x t) (\<lambda>x.
     bnd (conv2d T (mb_dia1 b) x) (\<lambda>x.
     bnd (conv2d T (mb_dia2 b) x) (\<lambda>x.
     bnd (stripformer T (mb_sf b) x) (\<lambda>x.
     bnd (conv2d T (mb_dia3 b) x) (\<lambda>x.
     bnd (conv2d T (mb_dia4 b) x) (\<lambda>x.
     ResidualBlock_forward T (mb_res2 b) x t))))))"

subsection \<open>Upsample and downsample\<close>

record Upsample =
  us_conv :: ConvTranspose2d

definition Upsample_init :: "nat \<Rightarrow> Upsample" where
  "Upsample_init n_channels =
     \<lparr>us_conv = \<lparr>convT_in_channels = n_channels, convT_out_channels = n_channels,
                 convT_kernel_size = (4, 4), convT_stride = (2, 2), convT_padding = (1, 1)\<rparr>\<rparr>"

definition Upsample_forward :: "'a torch \<Rightarrow> Upsample \<Rightarrow> 'a \<Rightarrow> 'a option \<Rightarrow> error + 'a" where
  "Upsample_forward T u x t = conv_transpose2d T (us_conv u) x"

record Downsample =
  ds_conv :: Conv2d

definition Downsample_init :: "nat \<Rightarrow> Downsample" where
  "Downsample_init n_channels =
     \<lparr>ds_conv = \<lparr>conv_in_channels = n_channels, conv_out_channels = n_channels,
                 conv_kernel_size = (3, 3), conv_stride = (2, 2), conv_padding = (1, 1),
                 conv_dilation = (1, 1)\<rparr>\<rparr>"

definition Downsample_forward :: "'a torch \<Rightarrow> Downsample \<Rightarrow> 'a \<Rightarrow> 'a option \<Rightarrow> error + 'a" where
  "Downsample_forward T d x t = conv2d T (ds_conv d) x"

section \<open>The U-Net\<close>

text \<open>
  The module lists \<open>down\<close> and \<open>up\<close> hold blocks of several classes; \<open>m(x, t)\<close>
  calls the \<open>forward\<close> of the class of \<open>m\<close>.
\<close>

datatype module =
    DownBlockM DownBlock
  | DownsampleM Downsample
  | UpBlockM UpBlock
  | UpsampleM Upsample

fun module_forward :: "'a torch \<Rightarrow> module \<Rightarrow> 'a \<Rightarrow> 'a option \<Rightarrow> error + 'a" where
  "module_forward T (DownBlockM b) x t = DownBlock_forward T b x t"
| "module_forward T (DownsampleM d) x t = Downsample_forward T d x t"
| "module_forward T (UpBlockM b) x t = UpBlock_forward T b x t"
| "module_forward T (UpsampleM u) x t = Upsample_forward T u x t"

fun is_Upsample :: "module \<Rightarrow> bool" where
  "is_Upsample (UpsampleM u) = True"
| "is_Upsample m = False"

record DenoiserUNet =
  image_proj :: Conv2d
  is_noise :: bool
  time_emb :: "TimeEmbedding option"
  down :: "module list"
  middle :: MiddleBlock
  up :: "module list"
  final :: Conv2d

subsection \<open>Construction\<close>

text \<open>
  \<open>for j in range(n_blocks)\<close> of the first half: every turn appends a down block and
  sets \<open>in_channels = out_channels\<close>. The first argument counts the turns left.
\<close>

fun down_blocks ::
  "nat \<Rightarrow> nat \<Rightarrow> nat \<Rightarrow> nat \<Rightarrow> bool \<Rightarrow> module list \<times> nat \<Rightarrow> error + (module list \<times> nat)" where
  "down_blocks 0 out_channels time_channels i isn (dlist, in_channels) = Inr (dlist, in_channels)"
| "down_blocks (Suc j) out_channels time_channels i isn (dlist, in_channels) =
     bnd (DownBlock_init in_channels out_channels time_channels i isn) (\<lambda>b.
     down_blocks j out_channels time_channels i isn (dlist @ [DownBlockM b], out_channels))"

text \<open>
  \<open>for i in range(n_resolutions)\<close>, over the list of the values of \<open>i\<close> still to
  come. The state is \<open>(down, in_channels, out_channels)\<close>, the list written \<open>dlist\<close>.
\<close>

fun down_levels ::
  "nat list \<Rightarrow> nat \<Rightarrow> nat list \<Rightarrow> nat \<Rightarrow> bool \<Rightarrow> nat \<Rightarrow> module list \<times> nat \<times> nat
     \<Rightarrow> error + (module list \<times> nat \<times> nat)" where
  "down_levels [] n_channels ch_mults n_blocks isn n_resolutions st = Inr st"
| "down_levels (i # rest) n_channels ch_mults n_blocks isn n_resolutions
       (dlist, in_channels, out_channels) =
     (let out_channels = n_channels * ch_mults ! i in
      bnd (down_blocks n_blocks out_channels (n_channels * 4) i isn (dlist, in_channels))
        (\<lambda>(dlist, in_channels).
      let dlist = (if int i < int n_resolutions - 1
                  then dlist @ [DownsampleM (Downsample_init in_channels)] else dlist) in
      down_levels rest n_channels ch_mults n_blocks isn n_resolutions
        (dlist, in_channels, out_channels)))"

text \<open>
  \<open>for j in range(n_blocks)\<close> of the second half: every turn appends
  \<open>UpBlock(in_channels, out_channels, ...)\<close> with the same two numbers; nothing is
  assigned in the loop.
\<close>

fun up_blocks ::
  "nat \<Rightarrow> nat \<Rightarrow> nat \<Rightarrow> nat \<Rightarrow> nat \<Rightarrow> bool \<Rightarrow> module list \<Rightarrow> error + module list" where
  "up_blocks 0 in_channels out_channels time_channels i isn ulist = Inr ulist"
| "up_blocks (Suc j) in_channels out_channels time_channels i isn ulist =
     bnd (UpBlock_init in_channels out_channels time_channels i isn 0) (\<lambda>b.
     up_blocks j in_channels out_channels time_channels i isn (ulist @ [UpBlockM b]))"

text \<open>\<open>for i in reversed(range(n_resolutions))\<close>, with the state
  \<open>(up, in_channels, out_channels)\<close>, the list written \<open>ulist\<close>.\<close>

fun up_levels ::
  "nat list \<Rightarrow> nat \<Rightarrow> nat list \<Rightarrow> nat \<Rightarrow> bool \<Rightarrow> module list \<times> nat \<times> nat
     \<Rightarrow> error + (module list \<times> nat \<times> nat)" where
  "up_levels [] n_channels ch_mults n_blocks isn st = Inr st"
| "up_levels (i # rest) n_channels ch_mults n_blocks isn (ulist, in_channels, out_channels) =
     (let out_channels = n_channels * ch_mults ! i in
      bnd (up_blocks n_blocks in_channels out_channels (n_channels * 4) i isn ulist) (\<lambda>ulist.
      let in_channels = n_channels * (if i \<ge> 1 then ch_mults ! (i - 1) else 1) in
      bnd (UpBlock_init in_channels out_channels (n_channels * 4) i isn 1) (\<lambda>b.
      let ulist = ulist @ [UpBlockM b];
          in_channels = out_channels;
          ulist = (if i > 0 then ulist @ [UpsampleM (Upsample_init in_channels)] else ulist) in
      up_levels rest n_channels ch_mults n_blocks isn (ulist, in_channels, out_channels))))"

definition DenoiserUNet_init ::
  "nat \<Rightarrow> nat \<Rightarrow> nat \<Rightarrow> nat list \<Rightarrow> nat \<Rightarrow> bool \<Rightarrow> error + DenoiserUNet" where
  "DenoiserUNet_init input_channels output_channels n_channels ch_mults n_blocks isn =
     (let n_resolutions = length ch_mults;
          proj = \<lparr>conv_in_channels = input_channels, conv_out_channels = n_channels,
                  conv_kernel_size = (3, 3), conv_stride = (1, 1), conv_padding = (1, 1),
                  conv_dilation = (1, 1)\<rparr> in
      bnd (if isn then map_sum id Some (TimeEmbedding_init (n_channels * 4)) else Inr None)
        (\<lambda>temb.
      bnd (down_levels [0..<n_resolutions] n_channels ch_mults n_blocks isn n_resolutions
             ([], n_channels, n_channels)) (\<lambda>(dlist, in_channels, out_channels).
      bnd (MiddleBlock_init out_channels (n_channels * 4) False) (\<lambda>mid.
      let in_channels = out_channels in
      bnd (up_levels (rev [0..<n_resolutions]) n_channels ch_mults n_blocks isn
             ([], in_channels, out_channels)) (\<lambda>(ulist, in_channels, out_channels).
      Inr \<lparr>image_proj = proj, is_noise = isn, time_emb = temb, down = dlist, middle = mid,
           up = ulist,
           final = \<lparr>conv_in_channels = in_channels, conv_out_channels = output_channels,
                    conv_kernel_size = (3, 3), conv_stride = (1, 1), conv_padding = (1, 1),
                    conv_dilation = (1, 1)\<rparr>\<rparr>)))))"

subsection \<open>Forward pass\<close>

text \<open>
  The skip stack \<open>h\<close> is a Python list: \<open>h.append(x)\<close> adds at the end,
  \<open>h.pop()\<close> takes the last element and raises IndexError on an empty list.
\<close>

fun down_loop ::
  "'a torch \<Rightarrow> module list \<Rightarrow> 'a option \<Rightarrow> 'a \<times> 'a list \<Rightarrow> error + ('a \<times> 'a list)" where
  "down_loop T [] t (x, h) = Inr (x, h)"
| "down_loop T (m # ms) t (x, h) =
     bnd (module_forward T m x t) (\<lambda>x. down_loop T ms t (x, h @ [x]))"

fun up_loop ::
  "'a torch \<Rightarrow> module list \<Rightarrow> 'a option \<Rightarrow> 'a \<times> 'a list \<Rightarrow> error + ('a \<times> 'a list)" where
  "up_loop T [] t (x, h) = Inr (x, h)"
| "up_loop T (m # ms) t (x, h) =
     (if is_Upsample m then
        bnd (module_forward T m x t) (\<lambda>x. up_loop T ms t (x, h))
      else if h = [] then Inl IndexError
      else
        (let s = last h; h = butlast h in
         bnd (torch_cat T x s 1) (\<lambda>x.
         bnd (module_forward T m x t) (\<lambda>x. up_loop T ms t (x, h)))))"

text \<open>
  The timestep argument is optional: a call without it uses the default of the
  signature, the tensor \<open>torch.tensor([0])\<close>. \<open>forward_stacks\<close> is the body of
  \<open>forward\<close> up to the end of the second loop; it returns \<open>x\<close> and the skip stack
  as they are there.
\<close>

definition forward_stacks ::
  "'a torch \<Rightarrow> DenoiserUNet \<Rightarrow> 'a \<Rightarrow> 'a option \<Rightarrow> error + ('a \<times> 'a list)" where
  "forward_stacks T m x targ =
     (let t = (case targ of None \<Rightarrow> torch_tensor0 T | Some tv \<Rightarrow> tv) in
      bnd (if is_noise m then
             (case time_emb m of
                None \<Rightarrow> Inl AttributeError
              | Some te \<Rightarrow> map_sum id Some (TimeEmbedding_forward T te t))
           else Inr None) (\<lambda>t.
      bnd (conv2d T (image_proj m) x) (\<lambda>x.
      bnd (down_loop T (down m) t (x, [x])) (\<lambda>(x, h).
      bnd (MiddleBlock_forward T (middle m) x t) (\<lambda>x.
      up_loop T (up m) t (x, h))))))"

definition DenoiserUNet_forward ::
  "'a torch \<Rightarrow> DenoiserUNet \<Rightarrow> 'a \<Rightarrow> 'a option \<Rightarrow> error + 'a" where
  "DenoiserUNet_forward T m x targ =
     bnd (forward_stacks T m x targ) (\<lambda>(x, h).
     bnd (Swish_forward T x) (\<lambda>a.
     conv2d T (final m) a))"

section \<open>The tensor library on shapes\<close>

text \<open>
  A tensor is read as its shape, the list of its sizes. Each operation follows the
  shape rule the library documents and raises where the library checks:
  a convolution wants four dimensions, its own number of input channels, and a padded
  input at least as large as the dilated kernel; the size it returns is
  \<open>(n + 2p - d(k - 1) - 1) div s + 1\<close>. A transposed convolution (dilation 1, no
  output padding) returns \<open>(n - 1)s - 2p + (k - 1) + 1\<close>, which must be positive.
\<close>

definition conv_size :: "nat \<Rightarrow> int \<Rightarrow> nat \<Rightarrow> nat \<Rightarrow> nat \<Rightarrow> error + nat" where
  "conv_size n p d k s =
     (if p < 0 then Inl (RuntimeError KernelSize)
      else if s = 0 then Inl (RuntimeError KernelSize)
      else if int n + 2 * p < int d * (int k - 1) + 1 then Inl (RuntimeError KernelSize)
      else Inr (nat ((int n + 2 * p - int d * (int k - 1) - 1) div int s + 1)))"

definition shape_conv2d :: "Conv2d \<Rightarrow> nat list \<Rightarrow> error + nat list" where
  "shape_conv2d c s =
     (case s of
        [b, ch, h, w] \<Rightarrow>
          if ch = conv_in_channels c then
            bnd (conv_size h (fst (conv_padding c)) (fst (conv_dilation c))
                   (fst (conv_kernel_size c)) (fst (conv_stride c))) (\<lambda>h'.
            bnd (conv_size w (snd (conv_padding c)) (snd (conv_dilation c))
                   (snd (conv_kernel_size c)) (snd (conv_stride c))) (\<lambda>w'.
            Inr [b, conv_out_channels c, h', w']))
          else Inl (RuntimeError (Channels (conv_in_channels c) ch))
      | _ \<Rightarrow> Inl (RuntimeError Rank))"

definition convT_size :: "nat \<Rightarrow> int \<Rightarrow> nat \<Rightarrow> nat \<Rightarrow> error + nat" where
  "convT_size n p k s =
     (let out = (int n - 1) * int s - 2 * p + (int k - 1) + 1 in
      if out < 1 then Inl (RuntimeError OutputSize) else Inr (nat out))"

definition shape_conv_transpose2d :: "ConvTranspose2d \<Rightarrow> nat list \<Rightarrow> error + nat list" where
  "shape_conv_transpose2d c s =
     (case s of
        [b, ch, h, w] \<Rightarrow>
          if ch = convT_in_channels c then
            bnd (convT_size h (fst (convT_padding c)) (fst (convT_kernel_size c))
                   (fst (convT_stride c))) (\<lambda>h'.
            bnd (convT_size w (snd (convT_padding c)) (snd (convT_kernel_size c))
                   (snd (convT_stride c))) (\<lambda>w'.
            Inr [b, convT_out_channels c, h', w']))
          else Inl (RuntimeError (Channels (convT_in_channels c) ch))
      | _ \<Rightarrow> Inl (RuntimeError Rank))"

text \<open>Group normalisation wants its own number of channels in dimension 1.\<close>

definition shape_group_norm :: "GroupNorm \<Rightarrow> nat list \<Rightarrow> error + nat list" where
  "shape_group_norm g s =
     (case s of
        b # ch # rest \<Rightarrow>
          if ch = gn_num_channels g then Inr s
          else Inl (RuntimeError (Channels (gn_num_channels g) ch))
      | _ \<Rightarrow> Inl (RuntimeError Rank))"

text \<open>Layer normalisation and the linear layer work on the last dimension.\<close>

definition shape_layer_norm :: "LayerNorm \<Rightarrow> nat list \<Rightarrow> error + nat list" where
  "shape_layer_norm l s =
     (if s = [] then Inl (RuntimeError Rank)
      else if last s = ln_normalized_shape l then Inr s
      else Inl (RuntimeError (Features (ln_normalized_shape l) (last s))))"

definition shape_linear :: "Linear \<Rightarrow> nat list \<Rightarrow> error + nat list" where
  "shape_linear l s =
     (if s = [] then Inl (RuntimeError Rank)
      else if last s = lin_in_features l then Inr (butlast s @ [lin_out_features l])
      else Inl (RuntimeError (Features (lin_in_features l) (last s))))"

text \<open>
  Broadcasting of two shapes, from the last dimension backwards: two sizes go together
  when they are equal or one of them is 1.
\<close>

fun broadcast_rev :: "nat list \<Rightarrow> nat list \<Rightarrow> error + nat list" where
  "broadcast_rev [] ys = Inr ys"
| "broadcast_rev (x # xs) [] = Inr (x # xs)"
| "broadcast_rev (x # xs) (y # ys) =
     (if x = y then bnd (broadcast_rev xs ys) (\<lambda>r. Inr (x # r))
      else if y = 1 then bnd (broadcast_rev xs ys) (\<lambda>r. Inr (x # r))
      else if x = 1 then bnd (broadcast_rev xs ys) (\<lambda>r. Inr (y # r))
      else Inl (RuntimeError Broadcast))"

definition broadcast :: "nat list \<Rightarrow> nat list \<Rightarrow> error + nat list" where
  "broadcast a b = bnd (broadcast_rev (rev a) (rev b)) (\<lambda>r. Inr (rev r))"

text \<open>An addition in place (\<open>h += e\<close>) must leave the shape of \<open>h\<close> as it is.\<close>

definition shape_iadd :: "nat list \<Rightarrow> nat list \<Rightarrow> error + nat list" where
  "shape_iadd a b =
     bnd (broadcast a b) (\<lambda>r. if r = a then Inr a else Inl (RuntimeError Broadcast))"

text \<open>Concatenation along \<open>dim\<close>: every other size has to agree.\<close>

definition shape_cat :: "nat list \<Rightarrow> nat list \<Rightarrow> nat \<Rightarrow> error + nat list" where
  "shape_cat a b d =
     (if length a = length b \<and> d < length a \<and> a[d := 0] = b[d := 0]
      then Inr (a[d := a ! d + b ! d])
      else Inl (RuntimeError CatSizes))"

text \<open>
  \<open>rearrange(hx, 'b c h w -> b (h w) c')\<close> and
  \<open>rearrange(hx, 'b (h w) c -> b c h w', h=H, w=W)\<close>.
\<close>

definition shape_bchw_to_bhwc :: "nat list \<Rightarrow> error + nat list" where
  "shape_bchw_to_bhwc s =
     (case s of [b, c, h, w] \<Rightarrow> Inr [b, h * w, c] | _ \<Rightarrow> Inl EinopsError)"

definition shape_bhwc_to_bchw :: "nat \<Rightarrow> nat \<Rightarrow> nat list \<Rightarrow> error + nat list" where
  "shape_bhwc_to_bchw H W s =
     (case s of
        [b, n, c] \<Rightarrow> if n = H * W then Inr [b, c, H, W] else Inl EinopsError
      | _ \<Rightarrow> Inl EinopsError)"

text \<open>The indexings \<open>t[:, None]\<close>, \<open>emb[None, :]\<close> and \<open>e[:, :, None, None]\<close>.\<close>

definition shape_index_col :: "nat list \<Rightarrow> error + nat list" where
  "shape_index_col s = (case s of [] \<Rightarrow> Inl IndexError | b # rest \<Rightarrow> Inr (b # 1 # rest))"

definition shape_index_row :: "nat list \<Rightarrow> error + nat list" where
  "shape_index_row s = (case s of [] \<Rightarrow> Inl IndexError | b # rest \<Rightarrow> Inr (1 # b # rest))"

definition shape_index_hw :: "nat list \<Rightarrow> error + nat list" where
  "shape_index_hw s =
     (case s of b # c # rest \<Rightarrow> Inr (b # c # 1 # 1 # rest) | _ \<Rightarrow> Inl IndexError)"

text \<open>
  Modelled from the spec: the module \<open>Stripformer\<close> of
  \<open>models/Stripformer_Attention.py\<close> is not part of the sources at hand. The spec
  gives its contract: given a feature map of shape [B,C,H,W], it returns a feature map
  of the same shape.
\<close>

definition shape_stripformer :: "Stripformer \<Rightarrow> nat list \<Rightarrow> error + nat list" where
  "shape_stripformer a s =
     (case s of [b, c, h, w] \<Rightarrow> Inr [b, c, h, w] | _ \<Rightarrow> Inl (RuntimeError Rank))"

text \<open>
  No number is computed in this reading: the elementwise functions return the shape
  they are given, a product with a number keeps the shape, and the value of
  \<open>math.log\<close> is never looked at.
\<close>

definition shapes :: "nat list torch" where
  "shapes =
     \<lparr>conv2d = shape_conv2d,
      conv_transpose2d = shape_conv_transpose2d,
      group_norm = shape_group_norm,
      layer_norm = shape_layer_norm,
      linear = shape_linear,
      relu = (\<lambda>s. s),
      dropout = (\<lambda>d s. s),
      torch_sigmoid = (\<lambda>s. s),
      torch_exp = (\<lambda>s. s),
      torch_sin = (\<lambda>s. s),
      torch_cos = (\<lambda>s. s),
      torch_arange = (\<lambda>n. [n]),
      torch_tensor0 = [1],
      torch_cat = shape_cat,
      mul = broadcast,
      mul_scalar = (\<lambda>s r. s),
      add = broadcast,
      iadd = shape_iadd,
      shape = (\<lambda>s. s),
      rearrange_bchw_to_bhwc = shape_bchw_to_bhwc,
      rearrange_bhwc_to_bchw = shape_bhwc_to_bchw,
      index_col = shape_index_col,
      index_row = shape_index_row,
      index_hw = shape_index_hw,
      stripformer = shape_stripformer,
      math_log = (\<lambda>r. 0)\<rparr>"

section \<open>The specification's wording of the blocks\<close>

text \<open>
  The specification describes the down block, the up block and the MLP mixer as fixed
  sequences of stages. These definitions follow its words; the theorems below compare
  them with the translations of the source.

  Down block: residual block, then MLP mixer, then attention if the depth flag is at
  least 2.
\<close>

definition DownBlock_spec :: "'a torch \<Rightarrow> DownBlock \<Rightarrow> 'a \<Rightarrow> 'a option \<Rightarrow> error + 'a" where
  "DownBlock_spec T b x t =
     pipeline ([(\<lambda>y. ResidualBlock_forward T (db_res b) y t), MLP_forward T (db_mlp b)]
               @ (if db_flag b \<ge> 2 then [stripformer T (db_att b)] else [])) x"

text \<open>
  Up block: residual block; then the MLP mixer if the apply-mixer flag is set; then
  attention if the apply-mixer flag is set and the depth flag is at least 2.
\<close>

definition UpBlock_spec :: "'a torch \<Rightarrow> UpBlock \<Rightarrow> 'a \<Rightarrow> 'a option \<Rightarrow> error + 'a" where
  "UpBlock_spec T b x t =
     pipeline ([(\<lambda>y. ResidualBlock_forward T (ub_res b) y t)]
               @ (if ub_flag1 b \<noteq> 0 then [MLP_forward T (ub_mlp b)] else [])
               @ (if ub_flag1 b \<noteq> 0 \<and> ub_flag2 b \<ge> 2 then [stripformer T (ub_att b)] else [])) x"

text \<open>
  MLP mixer on \<open>C\<close> channels: a 3x3 convolution from \<open>C\<close> to \<open>C\<close> channels, the
  reshaping to one channel vector per position, LayerNorm, Linear (expand by 2), ReLU,
  Linear (contract), LayerNorm, the reshaping back, the same convolution again, and the
  input added to the result.
\<close>

definition conv3x3 :: "nat \<Rightarrow> nat \<Rightarrow> Conv2d" where
  "conv3x3 cin cout =
     \<lparr>conv_in_channels = cin, conv_out_channels = cout, conv_kernel_size = (3, 3),
      conv_stride = (1, 1), conv_padding = (1, 1), conv_dilation = (1, 1)\<rparr>"

definition MLP_spec :: "'a torch \<Rightarrow> nat \<Rightarrow> 'a \<Rightarrow> error + 'a" where
  "MLP_spec T C x =
     (case shape T x of
        [B, C', H, W] \<Rightarrow>
          bnd (pipeline
                 [conv2d T (conv3x3 C C),
                  rearrange_bchw_to_bhwc T,
                  layer_norm T \<lparr>ln_normalized_shape = C\<rparr>,
                  linear T \<lparr>lin_in_features = C, lin_out_features = 2 * C\<rparr>,
                  (\<lambda>y. Inr (relu T y)),
                  linear T \<lparr>lin_in_features = 2 * C, lin_out_features = C\<rparr>,
                  layer_norm T \<lparr>ln_normalized_shape = C\<rparr>,
                  rearrange_bhwc_to_bchw T H W,
                  conv2d T (conv3x3 C C)] x)
              (\<lambda>hx. add T hx x)
      | _ \<Rightarrow> Inl ValueError)"

text \<open>
  The skip stack is filled by the list literal \<open>[x]\<close> and by one \<open>h.append\<close> per
  module of \<open>down\<close>, and emptied by one \<open>h.pop()\<close> per module of \<open>up\<close> that is not
  an \<open>Upsample\<close>.
\<close>

definition pushes :: "DenoiserUNet \<Rightarrow> nat" where
  "pushes m = 1 + length (down m)"

definition pops_of :: "module list \<Rightarrow> nat" where
  "pops_of ms = length (filter (\<lambda>u. \<not> is_Upsample u) ms)"

definition pops :: "DenoiserUNet \<Rightarrow> nat" where
  "pops m = pops_of (up m)"

section \<open>Basic facts\<close>

lemma bnd_Inr_iff: "bnd a f = Inr y \<longleftrightarrow> (\<exists>v. a = Inr v \<and> f v = Inr y)"
  by (cases a) auto

lemma get_pad_16:
  "get_pad 16 3 1 2 = Inr 2" "get_pad 16 3 1 4 = Inr 4"
  "get_pad 16 3 1 8 = Inr 8" "get_pad 16 3 1 16 = Inr 16"
  by (simp_all add: get_pad_def py_int_def)

lemma MiddleBlock_init_dias:
  assumes "MiddleBlock_init n tc isn = Inr mb"
  shows "mb_dia1 mb = dilated_conv n 2 2" "mb_dia2 mb = dilated_conv n 4 4"
        "mb_dia3 mb = dilated_conv n 8 8" "mb_dia4 mb = dilated_conv n 16 16"
  using assms by (auto simp: MiddleBlock_init_def get_pad_16 bnd_Inr_iff)

lemma shapes_conv2d [simp]: "conv2d shapes = shape_conv2d"
  by (simp add: shapes_def)

lemma dilated_conv_same:
  "0 < H \<Longrightarrow> 0 < W \<Longrightarrow>
   shape_conv2d (dilated_conv n d (int d)) [B, n, H, W] = Inr [B, n, H, W]"
  by (simp add: shape_conv2d_def dilated_conv_def conv_size_def)

lemma MiddleBlock_init_32: "\<exists>mb. MiddleBlock_init 32 128 False = Inr mb"
  by (simp add: MiddleBlock_init_def ResidualBlock_init_def Normalize_def GroupNorm_init_def
      get_pad_16)

section \<open>Padding of the dilated convolutions\<close>

text \<open>
  Claim C6. For each dilated 3x3 stride-1 convolution of the middle block, the padding
  that \<open>get_pad(16, 3, 1, d)\<close> computes is \<open>d\<close>, for \<open>d\<close> in 2, 4, 8, 16; so each of
  them maps a feature map \<open>[B, C, H, W]\<close> to \<open>[B, C, H, W]\<close> whatever the height and
  the width are (they are positive: a convolution has no result on an empty extent),
  although the padding was computed for the size 16.
\<close>

theorem dilated_padding_preserves_size:
  assumes "MiddleBlock_init n tc isn = Inr mb" and "0 < H" and "0 < W"
  shows "get_pad 16 3 1 2 = Inr 2 \<and> get_pad 16 3 1 4 = Inr 4 \<and>
         get_pad 16 3 1 8 = Inr 8 \<and> get_pad 16 3 1 16 = Inr 16 \<and>
         conv_padding (mb_dia1 mb) = (2, 2) \<and> conv_padding (mb_dia2 mb) = (4, 4) \<and>
         conv_padding (mb_dia3 mb) = (8, 8) \<and> conv_padding (mb_dia4 mb) = (16, 16) \<and>
         conv2d shapes (mb_dia1 mb) [B, n, H, W] = Inr [B, n, H, W] \<and>
         conv2d shapes (mb_dia2 mb) [B, n, H, W] = Inr [B, n, H, W] \<and>
         conv2d shapes (mb_dia3 mb) [B, n, H, W] = Inr [B, n, H, W] \<and>
         conv2d shapes (mb_dia4 mb) [B, n, H, W] = Inr [B, n, H, W]"
proof -
  note d = MiddleBlock_init_dias [OF assms(1)]
  have c: "\<And>d. shape_conv2d (dilated_conv n d (int d)) [B, n, H, W] = Inr [B, n, H, W]"
    using assms(2,3) by (rule dilated_conv_same)
  have p: "conv_padding (mb_dia1 mb) = (2, 2)" "conv_padding (mb_dia2 mb) = (4, 4)"
    "conv_padding (mb_dia3 mb) = (8, 8)" "conv_padding (mb_dia4 mb) = (16, 16)"
    by (simp_all add: d dilated_conv_def)
  show ?thesis
    using c [of 2] c [of 4] c [of 8] c [of 16] p by (simp add: get_pad_16 d)
qed

theorem dilated_padding_preserves_size_witness:
  "\<exists>mb. MiddleBlock_init 32 128 False = Inr mb \<and>
        conv2d shapes (mb_dia1 mb) [1, 32, 5, 7] = Inr [1, 32, 5, 7] \<and>
        conv2d shapes (mb_dia4 mb) [1, 32, 5, 7] = Inr [1, 32, 5, 7]"
proof -
  obtain mb where mb: "MiddleBlock_init 32 128 False = Inr mb"
    using MiddleBlock_init_32 by blast
  have "(0::nat) < 5" "(0::nat) < 7" by simp_all
  from dilated_padding_preserves_size [OF mb this] mb show ?thesis by blast
qed

section \<open>Upsample and downsample\<close>

lemma shapes_conv_transpose2d [simp]: "conv_transpose2d shapes = shape_conv_transpose2d"
  by (simp add: shapes_def)

lemma Downsample_halves:
  assumes "even H" "even W" "0 < H" "0 < W"
  shows "Downsample_forward shapes (Downsample_init C) [B, C, H, W] t = Inr [B, C, H div 2, W div 2]"
proof -
  have h: "nat ((int H + 2 * 1 - int 1 * (int 3 - 1) - 1) div int 2 + 1) = H div 2" if "even H" "0 < H" for H :: nat
    using that by (auto elim!: evenE)
  show ?thesis
    using assms h [of H] h [of W]
    by (simp add: Downsample_forward_def Downsample_init_def shape_conv2d_def conv_size_def)
qed

lemma Upsample_doubles:
  assumes "0 < H" "0 < W"
  shows "Upsample_forward shapes (Upsample_init C) [B, C, H, W] t = Inr [B, C, 2 * H, 2 * W]"
proof -
  have h: "nat (int n * 2) = 2 * n" for n :: nat
    by (simp add: nat_eq_iff)
  show ?thesis
    using assms
    by (simp add: Upsample_forward_def Upsample_init_def shape_conv_transpose2d_def
        convT_size_def Let_def h)
qed

text \<open>
  Claim C9. \<open>Downsample\<close> (3x3 kernel, stride 2, padding 1) maps a feature map
  \<open>[B, C, H, W]\<close> with even \<open>H\<close> and \<open>W\<close> to \<open>[B, C, H/2, W/2]\<close>;
  \<open>Upsample\<close> (4x4 transposed kernel, stride 2, padding 1) maps \<open>[B, C, H, W]\<close> to
  \<open>[B, C, 2H, 2W]\<close>; so \<open>Downsample\<close> followed by \<open>Upsample\<close> takes
  \<open>[B, C, 64, 64]\<close> back to \<open>[B, C, 64, 64]\<close>. This is a statement on shapes, for
  feature maps of positive height and width; the height and width given to
  \<open>Upsample\<close> may be odd.
\<close>

theorem resample_shapes:
  assumes "even H" and "even W" and "0 < H" and "0 < W" and "0 < H'" and "0 < W'"
  shows "ds_conv (Downsample_init C) =
           \<lparr>conv_in_channels = C, conv_out_channels = C, conv_kernel_size = (3, 3),
            conv_stride = (2, 2), conv_padding = (1, 1), conv_dilation = (1, 1)\<rparr> \<and>
         us_conv (Upsample_init C) =
           \<lparr>convT_in_channels = C, convT_out_channels = C, convT_kernel_size = (4, 4),
            convT_stride = (2, 2), convT_padding = (1, 1)\<rparr> \<and>
         Downsample_forward shapes (Downsample_init C) [B, C, H, W] t
           = Inr [B, C, H div 2, W div 2] \<and>
         Upsample_forward shapes (Upsample_init C) [B, C, H', W'] t
           = Inr [B, C, 2 * H', 2 * W'] \<and>
         bnd (Downsample_forward shapes (Downsample_init C) [B, C, 64, 64] t)
           (\<lambda>y. Upsample_forward shapes (Upsample_init C) y t) = Inr [B, C, 64, 64]"
proof -
  have d64: "Downsample_forward shapes (Downsample_init C) [B, C, 64, 64] t = Inr [B, C, 32, 32]"
    using Downsample_halves [of 64 64 C B t] by simp
  have u32: "Upsample_forward shapes (Upsample_init C) [B, C, 32, 32] t = Inr [B, C, 64, 64]"
    using Upsample_doubles [of 32 32 C B t] by simp
  have c1: "ds_conv (Downsample_init C) =
           \<lparr>conv_in_channels = C, conv_out_channels = C, conv_kernel_size = (3, 3),
            conv_stride = (2, 2), conv_padding = (1, 1), conv_dilation = (1, 1)\<rparr>"
    by (simp add: Downsample_init_def)
  have c2: "us_conv (Upsample_init C) =
           \<lparr>convT_in_channels = C, convT_out_channels = C, convT_kernel_size = (4, 4),
            convT_stride = (2, 2), convT_padding = (1, 1)\<rparr>"
    by (simp add: Upsample_init_def)
  have c5: "bnd (Downsample_forward shapes (Downsample_init C) [B, C, 64, 64] t)
           (\<lambda>y. Upsample_forward shapes (Upsample_init C) y t) = Inr [B, C, 64, 64]"
    by (simp add: d64 u32)
  from c1 c2 Downsample_halves [OF assms(1-4), of C B t]
    Upsample_doubles [OF assms(5,6), of C B t] c5
  show ?thesis by blast
qed

theorem resample_shapes_witness:
  "Downsample_forward shapes (Downsample_init 32) [1, 32, 6, 10] None = Inr [1, 32, 3, 5] \<and>
   Upsample_forward shapes (Upsample_init 32) [1, 32, 3, 5] None = Inr [1, 32, 6, 10]"
proof -
  have "even (6::nat)" "even (10::nat)" "(0::nat) < 6" "(0::nat) < 10"
    "(0::nat) < 3" "(0::nat) < 5" by simp_all
  from resample_shapes [OF this, of 32 1 None] show ?thesis by simp
qed

section \<open>The constructor of the time embedding\<close>

text \<open>
  Claim C4 as it is written says that the constructor of \<open>TimeEmbedding\<close> rejects
  every channel count with \<open>n_channels // 8 \<le> 1\<close>. At 8 channels \<open>half_dim\<close> is 1
  and the constructor returns the module.
\<close>

theorem TimeEmbedding_accepts_half_dim_1:
  "(8::nat) div 8 \<le> 1 \<and>
   TimeEmbedding_init 8 =
     Inr \<lparr>te_n_channels = 8,
          te_lin1 = \<lparr>lin_in_features = 2, lin_out_features = 8\<rparr>,
          te_lin2 = \<lparr>lin_in_features = 8, lin_out_features = 8\<rparr>\<rparr>"
  by (simp add: TimeEmbedding_init_def)

text \<open>
  Claim C4, amended. The constructor of \<open>TimeEmbedding\<close> checks nothing: it returns
  a module for every channel count. When \<open>half_dim = n_channels // 8\<close> is 1, the
  division by zero happens in \<open>forward\<close>, which raises ZeroDivisionError for
  every timestep.
\<close>

theorem TimeEmbedding_init_no_validation:
  "(\<exists>te. TimeEmbedding_init n = Inr te \<and> te_n_channels te = n) \<and>
   (\<forall>te. TimeEmbedding_init n = Inr te \<longrightarrow> n div 8 = 1 \<longrightarrow>
      TimeEmbedding_forward T te t = Inl ZeroDivisionError)"
  by (auto simp: TimeEmbedding_init_def TimeEmbedding_forward_def)

theorem TimeEmbedding_init_no_validation_witness:
  "\<exists>te. TimeEmbedding_init 8 = Inr te \<and> TimeEmbedding_forward shapes te [1] = Inl ZeroDivisionError"
proof -
  from TimeEmbedding_init_no_validation [of 8 shapes "[1]"]
  obtain te where te: "TimeEmbedding_init 8 = Inr te" by blast
  have "(8::nat) div 8 = 1" by simp
  with TimeEmbedding_init_no_validation [of 8 shapes "[1]"] te
  have "TimeEmbedding_forward shapes te [1] = Inl ZeroDivisionError" by blast
  with te show ?thesis by blast
qed

section \<open>The forward pass at the default configuration\<close>

text \<open>
  Claim C1 names one scenario: \<open>n_channels = 32\<close>, \<open>ch_mults = [1, 2, 2, 4]\<close>,
  \<open>n_blocks = 2\<close>, conditioning enabled, an input of shape \<open>[1, 2, 64, 64]\<close> and
  the timestep \<open>[5]\<close> (of shape \<open>[1]\<close>). There the constructor succeeds and
  \<open>forward\<close> raises: the second up block of resolution 2 was built for
  \<open>128 + 64 = 192\<close> input channels and receives \<open>64 + 64 = 128\<close>, because the
  loop over \<open>n_blocks\<close> of the second half builds every block from the same
  \<open>in_channels\<close>.
\<close>

theorem default_configuration_forward_raises:
  "(case DenoiserUNet_init 2 1 32 [1, 2, 2, 4] 2 True of
      Inl e \<Rightarrow> None
    | Inr m \<Rightarrow> Some (DenoiserUNet_forward shapes m [1, 2, 64, 64] (Some [1])))
   = Some (Inl (RuntimeError (Channels 192 128)))"
  by code_simp

text \<open>
  With one block per resolution and the same widths every concatenation fits, and
  \<open>forward\<close> returns a tensor of shape \<open>[1, 1, 64, 64]\<close>.
\<close>

lemma single_block_configuration_forward:
  "(case DenoiserUNet_init 2 1 32 [1, 2, 2, 4] 1 True of
      Inl e \<Rightarrow> None
    | Inr m \<Rightarrow> Some (DenoiserUNet_forward shapes m [1, 2, 64, 64] (Some [1])))
   = Some (Inr [1, 1, 64, 64])"
  by code_simp

section \<open>Further facts on sequencing, shapes and constructors\<close>

lemma bnd_Inr_right [simp]: "bnd a Inr = a"
  by (cases a) simp_all

lemma bnd_Inr_right' [simp]: "bnd a (\<lambda>y. Inr y) = a"
  by (cases a) simp_all

lemma bnd_assoc: "bnd (bnd a f) g = bnd a (\<lambda>x. bnd (f x) g)"
  by (cases a) simp_all

lemma pipeline_Nil_fun: "pipeline [] = Inr"
  by (rule ext) simp

lemma pipeline_Cons_fun: "pipeline (f # fs) = (\<lambda>x. bnd (f x) (pipeline fs))"
  by (rule ext) simp

lemma shapes_simps:
  "conv_transpose2d shapes = shape_conv_transpose2d"
  "group_norm shapes = shape_group_norm"
  "layer_norm shapes = shape_layer_norm"
  "linear shapes = shape_linear"
  "relu shapes = (\<lambda>s. s)"
  "dropout shapes = (\<lambda>d s. s)"
  "torch_sigmoid shapes = (\<lambda>s. s)"
  "torch_exp shapes = (\<lambda>s. s)"
  "torch_sin shapes = (\<lambda>s. s)"
  "torch_cos shapes = (\<lambda>s. s)"
  "torch_arange shapes = (\<lambda>n. [n])"
  "torch_tensor0 shapes = [1]"
  "torch_cat shapes = shape_cat"
  "mul shapes = broadcast"
  "mul_scalar shapes = (\<lambda>s r. s)"
  "add shapes = broadcast"
  "iadd shapes = shape_iadd"
  "shape shapes = (\<lambda>s. s)"
  "rearrange_bchw_to_bhwc shapes = shape_bchw_to_bhwc"
  "rearrange_bhwc_to_bchw shapes = shape_bhwc_to_bchw"
  "index_col shapes = shape_index_col"
  "index_row shapes = shape_index_row"
  "index_hw shapes = shape_index_hw"
  "stripformer shapes = shape_stripformer"
  by (simp_all add: shapes_def)

lemma broadcast_rev_same: "broadcast_rev xs xs = Inr xs"
  by (induction xs) simp_all

lemma broadcast_same: "broadcast s s = Inr s"
  by (simp add: broadcast_def broadcast_rev_same)

lemma conv3x3_same:
  "0 < H \<Longrightarrow> 0 < W \<Longrightarrow> shape_conv2d (conv3x3 C D) [B, C, H, W] = Inr [B, D, H, W]"
  by (simp add: shape_conv2d_def conv3x3_def conv_size_def)

lemma ResidualBlock_init_fields:
  assumes "ResidualBlock_init cin cout tc p isn = Inr r"
  shows "rb_is_noise r = isn"
    and "rb_time_emb r = (if isn then Some \<lparr>lin_in_features = tc, lin_out_features = cout\<rparr> else None)"
    and "gn_num_channels (rb_norm1 r) = cin"
    and "rb_conv1 r = conv3x3 cin cout"
    and "rb_conv2 r = conv3x3 cout cout"
  using assms
  by (auto simp: ResidualBlock_init_def Normalize_def GroupNorm_init_def bnd_Inr_iff conv3x3_def
      split: if_splits)

lemma UpBlock_init_fields:
  assumes "UpBlock_init cin cout tc f2 isn f1 = Inr b"
  shows "gn_num_channels (rb_norm1 (ub_res b)) = cin + cout"
    and "rb_conv1 (ub_res b) = conv3x3 (cin + cout) cout"
    and "ub_flag1 b = f1" and "ub_flag2 b = f2"
    and "ub_mlp b = MLP_init cout 2"
  using assms
  by (auto simp: UpBlock_init_def bnd_Inr_iff dest: ResidualBlock_init_fields)

lemma MiddleBlock_init_res:
  assumes "MiddleBlock_init n tc isn = Inr mb"
  shows "rb_is_noise (mb_res1 mb) = isn" "rb_is_noise (mb_res2 mb) = isn"
    "rb_time_emb (mb_res1 mb) = (if isn then Some \<lparr>lin_in_features = tc, lin_out_features = n\<rparr> else None)"
    "rb_time_emb (mb_res2 mb) = (if isn then Some \<lparr>lin_in_features = tc, lin_out_features = n\<rparr> else None)"
  using assms
  by (auto simp: MiddleBlock_init_def bnd_Inr_iff dest: ResidualBlock_init_fields)

lemma DenoiserUNet_init_parts:
  assumes "DenoiserUNet_init ic oc nc chm nb isn = Inr m"
  shows "\<exists>inc outc inc' outc'.
           down_levels [0..<length chm] nc chm nb isn (length chm) ([], nc, nc)
             = Inr (down m, inc, outc) \<and>
           MiddleBlock_init outc (nc * 4) False = Inr (middle m) \<and>
           up_levels (rev [0..<length chm]) nc chm nb isn ([], outc, outc)
             = Inr (up m, inc', outc')"
    and "is_noise m = isn"
  using assms
  by (auto simp: DenoiserUNet_init_def Let_def bnd_Inr_iff split: prod.splits)

lemma UpBlock_init_64: "\<exists>b. UpBlock_init 64 128 128 3 True 1 = Inr b"
  by (simp add: UpBlock_init_def ResidualBlock_init_def Normalize_def GroupNorm_init_def)

lemma DenoiserUNet_init_1_False: "\<not> isl (DenoiserUNet_init 2 1 32 [1] 1 False)"
  by code_simp

lemma DenoiserUNet_init_1_True: "\<not> isl (DenoiserUNet_init 2 1 32 [1] 1 True)"
  by code_simp


section \<open>Down block and up block\<close>

lemma DownBlock_forward_spec: "DownBlock_forward T b x t = DownBlock_spec T b x t"
  by (simp add: DownBlock_forward_def DownBlock_spec_def pipeline_Nil_fun pipeline_Cons_fun)

lemma UpBlock_forward_spec: "UpBlock_forward T b x t = UpBlock_spec T b x t"
  by (simp add: UpBlock_forward_def UpBlock_spec_def pipeline_Nil_fun pipeline_Cons_fun)

lemma up_loop_pop:
  "\<not> is_Upsample m \<Longrightarrow>
   up_loop T (m # ms) t (x, h @ [s]) =
     bnd (torch_cat T x s 1) (\<lambda>y. bnd (module_forward T m y t) (\<lambda>z. up_loop T ms t (z, h)))"
  by simp


text \<open>
  Claim C7. \<open>DownBlock.forward(x, t)\<close> computes its residual block, then its MLP
  mixer, then attention if and only if its depth flag is at least 2.
  \<open>UpBlock.forward(x, t)\<close> computes its residual block, which is built for
  \<open>Cin + Cout\<close> input channels and is given the input concatenated with the skip
  tensor by the second loop of the U-Net; then the MLP mixer if and only if \<open>flag1\<close>
  is set; then attention if and only if \<open>flag1\<close> is set and \<open>flag2\<close> is at least 2.
\<close>

theorem blocks_follow_spec:
  "DownBlock_forward T db x t = DownBlock_spec T db x t \<and>
   UpBlock_forward T ub x t = UpBlock_spec T ub x t \<and>
   (\<forall>b. UpBlock_init cin cout tc f2 isn f1 = Inr b \<longrightarrow>
      gn_num_channels (rb_norm1 (ub_res b)) = cin + cout \<and>
      rb_conv1 (ub_res b) = conv3x3 (cin + cout) cout \<and>
      ub_flag1 b = f1 \<and> ub_flag2 b = f2) \<and>
   (\<forall>m ms s h. \<not> is_Upsample m \<longrightarrow>
      up_loop T (m # ms) t (x, h @ [s]) =
        bnd (torch_cat T x s 1) (\<lambda>y.
        bnd (module_forward T m y t) (\<lambda>z. up_loop T ms t (z, h))))"
  using DownBlock_forward_spec [of T db x t] UpBlock_forward_spec [of T ub x t]
    UpBlock_init_fields [of cin cout tc f2 isn f1] up_loop_pop [of _ T _ t x]
  by blast

theorem blocks_follow_spec_witness:
  "\<exists>b. UpBlock_init 64 128 128 3 True 1 = Inr b \<and>
       rb_conv1 (ub_res b) = conv3x3 192 128 \<and> ub_flag1 b = 1 \<and> ub_flag2 b = 3 \<and>
       \<not> is_Upsample (UpBlockM b) \<and>
       up_loop shapes [UpBlockM b] (Some [1, 128]) ([1, 128, 8, 8], [[1, 64, 8, 8]])
         = bnd (torch_cat shapes [1, 128, 8, 8] [1, 64, 8, 8] 1) (\<lambda>y.
           bnd (module_forward shapes (UpBlockM b) y (Some [1, 128])) (\<lambda>z.
           up_loop shapes [] (Some [1, 128]) (z, [])))"
proof -
  obtain b where b: "UpBlock_init 64 128 128 3 True 1 = Inr b"
    using UpBlock_init_64 by blast
  have n: "\<not> is_Upsample (UpBlockM b)" by simp
  from blocks_follow_spec [where T = shapes and x = "[1, 128, 8, 8]" and t = "Some [1, 128]"
      and cin = 64 and cout = 128 and tc = 128 and ?f2.0 = 3 and isn = True and ?f1.0 = 1]
  have f: "rb_conv1 (ub_res b) = conv3x3 (64 + 128) 128 \<and> ub_flag1 b = 1 \<and> ub_flag2 b = 3"
    and u: "up_loop shapes (UpBlockM b # []) (Some [1, 128]) ([1, 128, 8, 8], [] @ [[1, 64, 8, 8]])
         = bnd (torch_cat shapes [1, 128, 8, 8] [1, 64, 8, 8] 1) (\<lambda>y.
           bnd (module_forward shapes (UpBlockM b) y (Some [1, 128])) (\<lambda>z.
           up_loop shapes [] (Some [1, 128]) (z, [])))"
    using b n by blast+
  from f u b n show ?thesis by simp
qed


section \<open>MLP mixer\<close>

lemma MLP_forward_spec: "MLP_forward T (MLP_init C 2) x = MLP_spec T C x"
  by (simp add: MLP_forward_def MLP_spec_def MLP_init_def conv3x3_def pipeline_Nil_fun
      pipeline_Cons_fun bnd_assoc split: list.splits)

lemma MLP_shape:
  assumes "0 < H" "0 < W"
  shows "MLP_forward shapes (MLP_init C 2) [B, C, H, W] = Inr [B, C, H, W]"
proof -
  have c: "shape_conv2d (conv3x3 C C) [B, C, H, W] = Inr [B, C, H, W]"
    using assms by (rule conv3x3_same)
  have m: "mlp_conv (MLP_init C 2) = conv3x3 C C"
    by (simp add: MLP_init_def conv3x3_def)
  have fc: "Sequential_forward shapes (mlp_fc (MLP_init C 2)) [B, H * W, C] = Inr [B, H * W, C]"
    by (simp add: MLP_init_def shapes_simps shape_layer_norm_def shape_linear_def)
  show ?thesis
    by (simp add: MLP_forward_def shapes_simps m c fc shape_bchw_to_bhwc_def
        shape_bhwc_to_bchw_def broadcast_same)
qed


text \<open>
  Claim C8. On every input the MLP mixer computes the 3x3 convolution from \<open>C\<close> to
  \<open>C\<close> channels, the reshaping to a sequence of channel vectors, LayerNorm, Linear
  (expand by 2), ReLU, Linear (contract), LayerNorm, the reshaping back, the same
  convolution again, and adds the input; and on a feature map \<open>[B, C, H, W]\<close> (of
  positive height and width) its result has the shape \<open>[B, C, H, W]\<close>.
\<close>

theorem MLP_mixer_steps:
  assumes "0 < H" and "0 < W"
  shows "MLP_forward T (MLP_init C 2) x = MLP_spec T C x \<and>
         MLP_forward shapes (MLP_init C 2) [B, C, H, W] = Inr [B, C, H, W]"
  using MLP_forward_spec [of T C x] MLP_shape [OF assms, of C B] by blast

theorem MLP_mixer_steps_witness:
  "MLP_forward shapes (MLP_init 32 2) [2, 32, 5, 7] = MLP_spec shapes 32 [2, 32, 5, 7] \<and>
   MLP_forward shapes (MLP_init 32 2) [2, 32, 5, 7] = Inr [2, 32, 5, 7]"
proof -
  have "(0::nat) < 5" "(0::nat) < 7" by simp_all
  from MLP_mixer_steps [OF this, of shapes 32 "[2, 32, 5, 7]" 2] show ?thesis by blast
qed


section \<open>Middle block\<close>

lemma ResidualBlock_forward_no_noise:
  "\<not> rb_is_noise r \<Longrightarrow> ResidualBlock_forward T r x t = ResidualBlock_forward T r x t'"
  by (simp add: ResidualBlock_forward_def add_time_emb_def)

lemma MiddleBlock_forward_pipeline:
  "MiddleBlock_forward T b x t =
     pipeline [(\<lambda>y. ResidualBlock_forward T (mb_res1 b) y t),
               conv2d T (mb_dia1 b), conv2d T (mb_dia2 b),
               stripformer T (mb_sf b),
               conv2d T (mb_dia3 b), conv2d T (mb_dia4 b),
               (\<lambda>y. ResidualBlock_forward T (mb_res2 b) y t)] x"
  by (simp add: MiddleBlock_forward_def pipeline_Nil_fun pipeline_Cons_fun)

lemma MiddleBlock_forward_no_noise:
  "\<not> rb_is_noise (mb_res1 b) \<Longrightarrow> \<not> rb_is_noise (mb_res2 b) \<Longrightarrow>
   MiddleBlock_forward T b x t = MiddleBlock_forward T b x t'"
  using ResidualBlock_forward_no_noise [of "mb_res1 b" T _ t t']
    ResidualBlock_forward_no_noise [of "mb_res2 b" T _ t t']
  by (simp add: MiddleBlock_forward_def)


text \<open>
  Claim C5. \<open>MiddleBlock.forward\<close> applies, in this order: residual block, dilated
  convolution (dilation 2), dilated convolution (dilation 4), attention, dilated
  convolution (dilation 8), dilated convolution (dilation 16), residual block. The
  U-Net builds its middle block with \<open>is_noise=False\<close>: neither residual block has
  a layer for the time embedding, and the result of the middle block is the one it
  has without any conditioning, also in a model built with conditioning.
\<close>

theorem MiddleBlock_order_unconditioned:
  assumes "DenoiserUNet_init ic oc nc chm nb isn = Inr m"
  shows "MiddleBlock_forward T b x t =
           pipeline [(\<lambda>y. ResidualBlock_forward T (mb_res1 b) y t),
                     conv2d T (mb_dia1 b), conv2d T (mb_dia2 b),
                     stripformer T (mb_sf b),
                     conv2d T (mb_dia3 b), conv2d T (mb_dia4 b),
                     (\<lambda>y. ResidualBlock_forward T (mb_res2 b) y t)] x \<and>
         conv_dilation (mb_dia1 (middle m)) = (2, 2) \<and>
         conv_dilation (mb_dia2 (middle m)) = (4, 4) \<and>
         conv_dilation (mb_dia3 (middle m)) = (8, 8) \<and>
         conv_dilation (mb_dia4 (middle m)) = (16, 16) \<and>
         \<not> rb_is_noise (mb_res1 (middle m)) \<and> \<not> rb_is_noise (mb_res2 (middle m)) \<and>
         rb_time_emb (mb_res1 (middle m)) = None \<and> rb_time_emb (mb_res2 (middle m)) = None \<and>
         MiddleBlock_forward T (middle m) x t = MiddleBlock_forward T (middle m) x None"
proof -
  from DenoiserUNet_init_parts(1) [OF assms]
  obtain c where mid: "MiddleBlock_init c (nc * 4) False = Inr (middle m)" by blast
  note r = MiddleBlock_init_res [OF mid] and d = MiddleBlock_init_dias [OF mid]
  have dil: "conv_dilation (mb_dia1 (middle m)) = (2, 2)"
    "conv_dilation (mb_dia2 (middle m)) = (4, 4)"
    "conv_dilation (mb_dia3 (middle m)) = (8, 8)"
    "conv_dilation (mb_dia4 (middle m)) = (16, 16)"
    by (simp_all add: d dilated_conv_def)
  have n: "\<not> rb_is_noise (mb_res1 (middle m))" "\<not> rb_is_noise (mb_res2 (middle m))"
    by (simp_all add: r)
  have e: "rb_time_emb (mb_res1 (middle m)) = None" "rb_time_emb (mb_res2 (middle m)) = None"
    by (simp_all add: r)
  from MiddleBlock_forward_pipeline [of T b x t] dil n e
    MiddleBlock_forward_no_noise [OF n, of T x t None]
  show ?thesis by blast
qed

theorem MiddleBlock_order_unconditioned_witness:
  "\<exists>m. DenoiserUNet_init 2 1 32 [1] 1 True = Inr m \<and> is_noise m \<and>
       \<not> rb_is_noise (mb_res1 (middle m)) \<and> \<not> rb_is_noise (mb_res2 (middle m)) \<and>
       MiddleBlock_forward shapes (middle m) [1, 32, 8, 8] (Some [1, 128])
         = MiddleBlock_forward shapes (middle m) [1, 32, 8, 8] None"
proof -
  obtain m where m: "DenoiserUNet_init 2 1 32 [1] 1 True = Inr m"
    using DenoiserUNet_init_1_True by (cases "DenoiserUNet_init 2 1 32 [1] 1 True") auto
  from MiddleBlock_order_unconditioned [OF m, of shapes _ "[1, 32, 8, 8]" "Some [1, 128]"]
    DenoiserUNet_init_parts(2) [OF m] m
  show ?thesis by blast
qed


section \<open>The timestep argument\<close>

lemma forward_stacks_no_noise:
  "\<not> is_noise m \<Longrightarrow> forward_stacks T m x targ = forward_stacks T m x targ'"
  by (simp add: forward_stacks_def)


text \<open>
  Claim C10. For a U-Net built with \<open>is_noise=False\<close>, the result of \<open>forward\<close>
  does not depend on the timestep: for the same input and any two timesteps the two
  calls return the same (or raise the same); \<open>forward\<close> replaces \<open>t\<close> by \<open>None\<close>
  before any block runs, and a residual block built with \<open>is_noise=False\<close> never
  reads its conditioning argument. This holds with every meaning of the operations of
  the tensor library that is a function of their arguments.
\<close>

theorem disabled_conditioning_ignores_timestep:
  assumes "DenoiserUNet_init ic oc nc chm nb False = Inr m"
  shows "DenoiserUNet_forward T m x (Some t1) = DenoiserUNet_forward T m x (Some t2) \<and>
         (\<forall>r y c1 c2. \<not> rb_is_noise r \<longrightarrow>
            ResidualBlock_forward T r y c1 = ResidualBlock_forward T r y c2)"
proof -
  have "\<not> is_noise m" using DenoiserUNet_init_parts(2) [OF assms] by simp
  then have "forward_stacks T m x (Some t1) = forward_stacks T m x (Some t2)"
    by (rule forward_stacks_no_noise)
  then show ?thesis
    using ResidualBlock_forward_no_noise [of _ T] by (auto simp: DenoiserUNet_forward_def)
qed

theorem disabled_conditioning_ignores_timestep_witness:
  "\<exists>m. DenoiserUNet_init 2 1 32 [1] 1 False = Inr m \<and>
       DenoiserUNet_forward shapes m [1, 2, 8, 8] (Some [1])
         = DenoiserUNet_forward shapes m [1, 2, 8, 8] (Some [7, 3])"
proof -
  obtain m where m: "DenoiserUNet_init 2 1 32 [1] 1 False = Inr m"
    using DenoiserUNet_init_1_False by (cases "DenoiserUNet_init 2 1 32 [1] 1 False") auto
  from disabled_conditioning_ignores_timestep [OF m, of shapes "[1, 2, 8, 8]" "[1]" "[7, 3]"] m
  show ?thesis by blast
qed


text \<open>
  Claim C3 as it is written says that \<open>forward\<close> raises when it is given a timestep
  and the model was built without conditioning, and when it is given none and the model
  was built with conditioning. Both calls return a tensor: here for one resolution, one
  block per resolution and an input of shape \<open>[1, 2, 8, 8]\<close>.
\<close>

theorem timestep_mismatch_is_silent:
  "(case DenoiserUNet_init 2 1 32 [1] 1 False of
      Inl e \<Rightarrow> None
    | Inr m \<Rightarrow> Some (DenoiserUNet_forward shapes m [1, 2, 8, 8] (Some [1])))
     = Some (Inr [1, 1, 8, 8]) \<and>
   (case DenoiserUNet_init 2 1 32 [1] 1 True of
      Inl e \<Rightarrow> None
    | Inr m \<Rightarrow> Some (DenoiserUNet_forward shapes m [1, 2, 8, 8] None))
     = Some (Inr [1, 1, 8, 8])"
  by code_simp


text \<open>
  Claim C3, amended. \<open>forward\<close> never compares the timestep argument with the way
  the model was built. Built without conditioning, it drops a timestep it is given: the
  call returns what the call without a timestep returns. Built with conditioning and
  called without a timestep, it uses the default of its signature,
  \<open>torch.tensor([0])\<close>.
\<close>

theorem timestep_argument_policy:
  "(\<not> is_noise m \<longrightarrow>
      DenoiserUNet_forward T m x (Some t) = DenoiserUNet_forward T m x None) \<and>
   (is_noise m \<longrightarrow>
      DenoiserUNet_forward T m x None = DenoiserUNet_forward T m x (Some (torch_tensor0 T)))"
  by (simp add: DenoiserUNet_forward_def forward_stacks_def)

theorem timestep_argument_policy_witness:
  "\<exists>m m'. DenoiserUNet_init 2 1 32 [1] 1 False = Inr m \<and>
          DenoiserUNet_forward shapes m [1, 2, 8, 8] (Some [1])
            = DenoiserUNet_forward shapes m [1, 2, 8, 8] None \<and>
          DenoiserUNet_init 2 1 32 [1] 1 True = Inr m' \<and>
          DenoiserUNet_forward shapes m' [1, 2, 8, 8] None
            = DenoiserUNet_forward shapes m' [1, 2, 8, 8] (Some (torch_tensor0 shapes))"
proof -
  obtain m where m: "DenoiserUNet_init 2 1 32 [1] 1 False = Inr m"
    using DenoiserUNet_init_1_False by (cases "DenoiserUNet_init 2 1 32 [1] 1 False") auto
  obtain m' where m': "DenoiserUNet_init 2 1 32 [1] 1 True = Inr m'"
    using DenoiserUNet_init_1_True by (cases "DenoiserUNet_init 2 1 32 [1] 1 True") auto
  have n: "\<not> is_noise m" "is_noise m'"
    using DenoiserUNet_init_parts(2) [OF m] DenoiserUNet_init_parts(2) [OF m'] by simp_all
  from timestep_argument_policy [of m shapes "[1, 2, 8, 8]" "[1]"]
    timestep_argument_policy [of m' shapes "[1, 2, 8, 8]"] n m m'
  show ?thesis by blast
qed


section \<open>The skip stack\<close>

lemma pops_of_simps [simp]:
  "pops_of [] = 0"
  "pops_of (m # ms) = (if is_Upsample m then pops_of ms else Suc (pops_of ms))"
  "pops_of (ms @ ms') = pops_of ms + pops_of ms'"
  by (simp_all add: pops_of_def)

lemma down_blocks_length:
  "down_blocks j outc tc i isn (dl, inc) = Inr (dl', inc') \<Longrightarrow> length dl' = length dl + j"
  by (induction j arbitrary: dl inc) (auto simp: bnd_Inr_iff)

lemma down_levels_length:
  "down_levels is nc chm nb isn nres (dl, inc, outc) = Inr (dl', inc', outc') \<Longrightarrow>
   length dl' = length dl + length is * nb + length (filter (\<lambda>i. int i < int nres - 1) is)"
proof (induction "is" arbitrary: dl inc outc)
  case Nil
  then show ?case by simp
next
  case (Cons i rest)
  from Cons.prems obtain d1 c1 where
    b: "down_blocks nb (nc * chm ! i) (nc * 4) i isn (dl, inc) = Inr (d1, c1)" and
    r: "down_levels rest nc chm nb isn nres
          (if int i < int nres - 1 then d1 @ [DownsampleM (Downsample_init c1)] else d1,
           c1, nc * chm ! i) = Inr (dl', inc', outc')"
    by (auto simp: Let_def bnd_Inr_iff)
  from down_blocks_length [OF b] Cons.IH [OF r] show ?case
    by (simp split: if_splits)
qed

lemma up_blocks_pops:
  "up_blocks j inc outc tc i isn ul = Inr ul' \<Longrightarrow> pops_of ul' = pops_of ul + j"
  by (induction j arbitrary: ul) (auto simp: bnd_Inr_iff)

lemma up_levels_pops:
  "up_levels is nc chm nb isn (ul, inc, outc) = Inr (ul', inc', outc') \<Longrightarrow>
   pops_of ul' = pops_of ul + length is * (nb + 1)"
proof (induction "is" arbitrary: ul inc outc)
  case Nil
  then show ?case by simp
next
  case (Cons i rest)
  from Cons.prems obtain u1 b where
    b: "up_blocks nb inc (nc * chm ! i) (nc * 4) i isn ul = Inr u1" and
    r: "up_levels rest nc chm nb isn
          (if i > 0 then (u1 @ [UpBlockM b]) @ [UpsampleM (Upsample_init (nc * chm ! i))]
           else u1 @ [UpBlockM b],
           nc * chm ! i, nc * chm ! i) = Inr (ul', inc', outc')"
    by (auto simp: Let_def bnd_Inr_iff)
  from up_blocks_pops [OF b] Cons.IH [OF r] show ?case
    by (simp split: if_splits)
qed

lemma filter_less_upt: "length (filter (\<lambda>i. i < k) [0..<n]) = min k n"
  by (induction n) auto

lemma downsample_count: "length (filter (\<lambda>i. int i < int n - 1) [0..<n]) = n - 1"
proof -
  have "(\<lambda>i. int i < int n - 1) = (\<lambda>i. i < n - 1)"
    by (rule ext) auto
  then show ?thesis by (simp add: filter_less_upt)
qed

lemma down_loop_length:
  "down_loop T ms t (x, h) = Inr (x', h') \<Longrightarrow> length h' = length h + length ms"
  by (induction ms arbitrary: x h) (auto simp: bnd_Inr_iff)

lemma up_loop_length:
  "up_loop T ms t (x, h) = Inr (x', h') \<Longrightarrow> length h = length h' + pops_of ms"
proof (induction ms arbitrary: x h)
  case Nil
  then show ?case by simp
next
  case (Cons m ms)
  show ?case
  proof (cases "is_Upsample m")
    case True
    with Cons.prems obtain y where "up_loop T ms t (y, h) = Inr (x', h')"
      by (auto simp: bnd_Inr_iff)
    from Cons.IH [OF this] True show ?thesis by simp
  next
    case False
    with Cons.prems have ne: "h \<noteq> []" by (auto split: if_splits)
    with False Cons.prems obtain y where "up_loop T ms t (y, butlast h) = Inr (x', h')"
      by (auto simp: bnd_Inr_iff Let_def)
    from Cons.IH [OF this] False ne show ?thesis by (cases h rule: rev_cases) simp_all
  qed
qed

lemma init_counts:
  assumes "DenoiserUNet_init ic oc nc chm nb isn = Inr m"
  shows "length (down m) = length chm * nb + (length chm - 1)"
    and "pops m = length chm * (nb + 1)"
proof -
  from DenoiserUNet_init_parts(1) [OF assms] obtain inc outc inc' outc' where
    d: "down_levels [0..<length chm] nc chm nb isn (length chm) ([], nc, nc)
         = Inr (down m, inc, outc)" and
    u: "up_levels (rev [0..<length chm]) nc chm nb isn ([], outc, outc)
         = Inr (up m, inc', outc')"
    by blast
  from down_levels_length [OF d] show "length (down m) = length chm * nb + (length chm - 1)"
    by (simp add: downsample_count)
  from up_levels_pops [OF u] show "pops m = length chm * (nb + 1)"
    by (simp add: pops_def)
qed

lemma forward_stacks_empty:
  assumes "forward_stacks T m x targ = Inr (y, h)" and "pushes m = pops m"
  shows "h = []"
proof -
  from assms(1) obtain t x0 x1 h1 x2 where
    d: "down_loop T (down m) t (x0, [x0]) = Inr (x1, h1)" and
    u: "up_loop T (up m) t (x2, h1) = Inr (y, h)"
    by (auto simp: forward_stacks_def Let_def bnd_Inr_iff split: prod.splits)
  from down_loop_length [OF d] up_loop_length [OF u] assms(2)
  show ?thesis by (simp add: pushes_def pops_def)
qed


text \<open>
  Claim C2 as it is written gives the number of pushes and the number of pops as
  \<open>n_resolutions * (n_blocks + 1)\<close> for every configuration, and an empty stack at
  the end. With an empty list of channel multipliers the constructor and \<open>forward\<close>
  succeed, the projected input is pushed and nothing is popped: one push, no pop, one
  tensor left on the stack, while \<open>n_resolutions * (n_blocks + 1)\<close> is 0.
\<close>

theorem skip_stack_unbalanced_without_levels:
  "(case DenoiserUNet_init 2 1 32 [] 2 False of
      Inl e \<Rightarrow> None
    | Inr m \<Rightarrow> Some (pushes m, pops m, forward_stacks shapes m [1, 2, 64, 64] None))
     = Some (1, 0, Inr ([1, 32, 64, 64], [[1, 32, 64, 64]])) \<and>
   length ([] :: nat list) * (2 + 1) = (0 :: nat)"
  by code_simp


text \<open>
  Claim C2, amended. For every configuration with at least one resolution that the
  constructor accepts, the skip stack receives \<open>n_resolutions * (n_blocks + 1)\<close>
  tensors (the projected input and one per module of \<open>down\<close>, so many are on it when
  the first loop is through), the modules of \<open>up\<close> that are not an \<open>Upsample\<close>
  are \<open>n_resolutions * (n_blocks + 1)\<close> and each of them pops exactly one tensor,
  and the skip stack is empty whenever the second loop is through.
\<close>

theorem skip_stack_balanced:
  assumes "DenoiserUNet_init ic oc nc chm nb isn = Inr m" and "chm \<noteq> []"
  shows "pushes m = length chm * (nb + 1) \<and> pops m = length chm * (nb + 1) \<and>
         (down_loop T (down m) t (x0, [x0]) = Inr (x1, h1) \<longrightarrow> length h1 = pushes m) \<and>
         (up_loop T (up m) t (x2, h2) = Inr (x3, h3) \<longrightarrow> length h2 = length h3 + pops m) \<and>
         (forward_stacks T m x targ = Inr (y, h) \<longrightarrow> h = [])"
proof -
  from assms(2) have n: "0 < length chm" by simp
  have pu: "pushes m = length chm * (nb + 1)"
    using init_counts(1) [OF assms(1)] n by (simp add: pushes_def)
  have po: "pops m = length chm * (nb + 1)"
    by (rule init_counts(2) [OF assms(1)])
  have d: "down_loop T (down m) t (x0, [x0]) = Inr (x1, h1) \<longrightarrow> length h1 = pushes m"
    using down_loop_length [of T "down m" t x0 "[x0]" x1 h1] by (simp add: pushes_def)
  have u: "up_loop T (up m) t (x2, h2) = Inr (x3, h3) \<longrightarrow> length h2 = length h3 + pops m"
    using up_loop_length [of T "up m" t x2 h2 x3 h3] by (simp add: pops_def)
  have e: "forward_stacks T m x targ = Inr (y, h) \<longrightarrow> h = []"
    using forward_stacks_empty [of T m x targ y h] pu po by simp
  from pu po d u e show ?thesis by blast
qed


text \<open>With one block per resolution the default widths fit, and the pass goes through.\<close>

lemma forward_stacks_1: 
  "(case DenoiserUNet_init 2 1 32 [1, 2, 2, 4] 1 True of
      Inl e \<Rightarrow> None
    | Inr m \<Rightarrow> Some (forward_stacks shapes m [1, 2, 64, 64] (Some [1])))
     = Some (Inr ([1, 32, 64, 64], []))"
  by code_simp

theorem skip_stack_balanced_witness:
  "\<exists>m. DenoiserUNet_init 2 1 32 [1, 2, 2, 4] 1 True = Inr m \<and>
       pushes m = 8 \<and> pops m = 8 \<and>
       forward_stacks shapes m [1, 2, 64, 64] (Some [1]) = Inr ([1, 32, 64, 64], [])"
proof -
  obtain m where m: "DenoiserUNet_init 2 1 32 [1, 2, 2, 4] 1 True = Inr m"
    using forward_stacks_1 by (cases "DenoiserUNet_init 2 1 32 [1, 2, 2, 4] 1 True") auto
  have f: "forward_stacks shapes m [1, 2, 64, 64] (Some [1]) = Inr ([1, 32, 64, 64], [])"
    using forward_stacks_1 m by simp
  have ne: "[1, 2, 2, 4] \<noteq> ([] :: nat list)" by simp
  from skip_stack_balanced [OF m ne, where T = shapes]
  have "pushes m = 8" "pops m = 8" by simp_all
  with m f show ?thesis by blast
qed


end
